theory Spec2Isabelle
  imports Complex_Main
begin

unbundle bit_operations_syntax

section \<open>utMath/Pose.h: a 6D pose\<close>

text \<open>
  The C++ type \<^verbatim>\<open>double\<close> is modelled by \<^typ>\<open>real\<close>: rounding, infinities and NaN are
  left out. Where the source divides, the model says what happens at a zero divisor.
\<close>

text \<open>\<^verbatim>\<open>Quaternion\<close> (Quaternion.h) with its components x, y, z, w.\<close>

record quaternion =
  qx :: real
  qy :: real
  qz :: real
  qw :: real

text \<open>\<^verbatim>\<open>Vector< double, 3 >\<close>, indexed 0, 1, 2.\<close>

record vector3 =
  v0 :: real
  v1 :: real
  v2 :: real

text \<open>The two data members of \<^verbatim>\<open>class Pose\<close> (Pose.h, lines 166-167).\<close>

record pose =
  m_rotation :: quaternion
  m_translation :: vector3

text \<open>
  What goes wrong in the sources, as values: a uBlas index check that fails, the
  \<^verbatim>\<open>assert\<close> of \<^verbatim>\<open>k_means\<close>, a read through an iterator that is already at the end of
  its range, and the failure the spec names for the homography solvers.
\<close>

datatype error = BadIndex | AssertionFailed | PastTheEnd | DegenerateConfiguration

text \<open>
  \<^verbatim>\<open>void scalePose( double scalingFactor )\<close> (lines 88-95) is not a \<^verbatim>\<open>const\<close> member: it
  assigns to the three components of \<^verbatim>\<open>m_translation\<close> and returns nothing. The model
  returns the receiver after the call.
\<close>

definition scalePose :: "real \<Rightarrow> pose \<Rightarrow> pose" where
  "scalePose scalingFactor p =
     p\<lparr>m_translation :=
         \<lparr>v0 = v0 (m_translation p) * scalingFactor,
          v1 = v1 (m_translation p) * scalingFactor,
          v2 = v2 (m_translation p) * scalingFactor\<rparr>\<rparr>"

text \<open>
  A uBlas vector is a list of elements of its \<^verbatim>\<open>value_type\<close>. Taking the range
  \<^verbatim>\<open>[start, stop)\<close> of a vector that is too short fails uBlas's index check.
\<close>

definition range_ok :: "'e list \<Rightarrow> nat \<Rightarrow> nat \<Rightarrow> bool" where
  "range_ok v start stop = (start \<le> stop \<and> stop \<le> length v)"

text \<open>
  Modelled from the spec: \<^verbatim>\<open>Quaternion::toVector\<close> and \<^verbatim>\<open>Quaternion::fromVector\<close>
  (Quaternion.h) are not among the sources. The doc comments of \<^verbatim>\<open>Pose::toVector\<close> and
  \<^verbatim>\<open>Pose::fromVector\<close> give their order, "tx, ty, tz, qx, qy, qz, qw", and the spec
  says "quaternion x,y,z,w": the four components are written to, and read from,
  positions 0..3 of the range they are handed. The conversion \<open>cst\<close> from
  \<^verbatim>\<open>double\<close> to the vector's value type and the conversion \<open>dbl\<close> back
  (\<^verbatim>\<open>vector_cast_assign\<close> of \<^verbatim>\<open>cast_assign.h\<close> is not among the sources either) are
  parameters.
\<close>

definition quaternion_toVector :: "(real \<Rightarrow> 'e) \<Rightarrow> quaternion \<Rightarrow> nat \<Rightarrow> 'e list \<Rightarrow> 'e list" where
  "quaternion_toVector cst q off v =
     v[off := cst (qx q), off + 1 := cst (qy q), off + 2 := cst (qz q), off + 3 := cst (qw q)]"

definition quaternion_fromVector :: "('e \<Rightarrow> real) \<Rightarrow> nat \<Rightarrow> 'e list \<Rightarrow> quaternion" where
  "quaternion_fromVector dbl off v =
     \<lparr>qx = dbl (v ! off), qy = dbl (v ! (off + 1)), qz = dbl (v ! (off + 2)),
      qw = dbl (v ! (off + 3))\<rparr>"

definition vector_cast_assign :: "(real \<Rightarrow> 'e) \<Rightarrow> vector3 \<Rightarrow> nat \<Rightarrow> 'e list \<Rightarrow> 'e list" where
  "vector_cast_assign cst t off v =
     v[off := cst (v0 t), off + 1 := cst (v1 t), off + 2 := cst (v2 t)]"

text \<open>
  \<^verbatim>\<open>Pose::toVector\<close> (lines 115-123): the rotation goes to the range \<^verbatim>\<open>[3, 7)\<close> of \<open>v\<close>,
  then the translation to the range \<^verbatim>\<open>[0, 3)\<close>. The receiver is \<^verbatim>\<open>const\<close>; the vector is
  the output.
\<close>

definition toVector :: "(real \<Rightarrow> 'e) \<Rightarrow> pose \<Rightarrow> 'e list \<Rightarrow> error + 'e list" where
  "toVector cst p v =
     (if \<not> range_ok v 3 7 then Inl BadIndex
      else let v' = quaternion_toVector cst (m_rotation p) 3 v in
        if \<not> range_ok v' 0 3 then Inl BadIndex
        else Inr (vector_cast_assign cst (m_translation p) 0 v'))"

text \<open>\<^verbatim>\<open>Pose::fromVector\<close> (lines 129-131).\<close>

definition fromVector :: "('e \<Rightarrow> real) \<Rightarrow> 'e list \<Rightarrow> error + pose" where
  "fromVector dbl v =
     (if \<not> range_ok v 3 7 then Inl BadIndex
      else Inr \<lparr>m_rotation = quaternion_fromVector dbl 3 v,
                m_translation = \<lparr>v0 = dbl (v ! 0), v1 = dbl (v ! 1), v2 = dbl (v ! 2)\<rparr>\<rparr>)"


text \<open>
  Poses as objects: a store gives the pose that stands at each address, and a reference
  to a data member of a pose names the address and the member.
\<close>

type_synonym address = nat
type_synonym store = "address \<Rightarrow> pose"

datatype member = M_rotation | M_translation

datatype reference = Member address member

datatype member_value = AQuaternion quaternion | AVector3 vector3

text \<open>What is read through a reference, in a given store.\<close>

fun deref :: "store \<Rightarrow> reference \<Rightarrow> member_value" where
  "deref st (Member a M_rotation) = AQuaternion (m_rotation (st a))"
| "deref st (Member a M_translation) = AVector3 (m_translation (st a))"

text \<open>
  The accessors (lines 101-109),
  \<^verbatim>\<open>const Quaternion& rotation() const { return m_rotation; }\<close> and
  \<^verbatim>\<open>const Vector< double, 3 >& translation() const { return m_translation; }\<close>: each
  returns a reference to a member of the receiver, not a copy of it.
\<close>

definition rotation :: "address \<Rightarrow> reference" where
  "rotation this = Member this M_rotation"

definition translation :: "address \<Rightarrow> reference" where
  "translation this = Member this M_translation"

text \<open>
  The copy assignment, which the compiler generates (line 133: "assignment and copy
  constructors are automatically generated by the compiler"): both members of the
  receiver are overwritten with those of the other pose.
\<close>

definition assign :: "pose \<Rightarrow> pose \<Rightarrow> pose" where
  "assign other p = p\<lparr>m_rotation := m_rotation other, m_translation := m_translation other\<rparr>"

text \<open>
  The remaining public members are declared \<^verbatim>\<open>const\<close> in Pose.h (lines 140, 149, 155)
  and return by value:
  \<^verbatim>\<open>Vector< double, 3 > operator*( const Vector< double, 3 >& x ) const\<close>,
  \<^verbatim>\<open>Pose operator*( const Pose& Q ) const\<close> and \<^verbatim>\<open>Pose operator~( ) const\<close>. Their bodies are in
  Pose.cpp, which is not among the sources, so what they compute is a parameter: a
  function of the receiver's contents and the argument.
\<close>

record pose_bodies =
  transform_vector :: "pose \<Rightarrow> vector3 \<Rightarrow> vector3"
  multiply :: "pose \<Rightarrow> pose \<Rightarrow> pose"
  invert :: "pose \<Rightarrow> pose"

text \<open>
  A call of a public member function on the pose at the address \<open>this\<close>, and what the call
  leaves behind: the store after the call, and what is returned. The argument of the
  multiplication and of the assignment is a \<^verbatim>\<open>const Pose&\<close>, an address that may be
  \<open>this\<close> itself; \<open>toVector\<close> gives back the vector it was handed; the assignment returns
  a reference to the receiver.
\<close>

datatype 'e pose_call =
    ScalePose real
  | Rotation
  | Translation
  | ToVector "real \<Rightarrow> 'e" "'e list"
  | TransformVector vector3
  | Multiply address
  | Invert
  | Assign address

datatype 'e pose_result =
    Void
  | ConstRef reference
  | VectorOut "error + 'e list"
  | Vector3Value vector3
  | PoseValue pose
  | PoseRef address

fun call ::
  "pose_bodies \<Rightarrow> 'e pose_call \<Rightarrow> address \<Rightarrow> store \<Rightarrow> store \<times> 'e pose_result" where
  "call B (ScalePose s) this st = (st(this := scalePose s (st this)), Void)"
| "call B Rotation this st = (st, ConstRef (rotation this))"
| "call B Translation this st = (st, ConstRef (translation this))"
| "call B (ToVector cst v) this st = (st, VectorOut (toVector cst (st this) v))"
| "call B (TransformVector x) this st = (st, Vector3Value (transform_vector B (st this) x))"
| "call B (Multiply Q) this st = (st, PoseValue (multiply B (st this) (st Q)))"
| "call B Invert this st = (st, PoseValue (invert B (st this)))"
| "call B (Assign other) this st = (st(this := assign (st other) (st this)), PoseRef this)"

section \<open>utCalibration/Correlation.cpp\<close>

text \<open>
  The result of a division of doubles: a number when the divisor is not zero;
  otherwise IEEE 754 gives NaN for \<^verbatim>\<open>0/0\<close> and an infinity for \<^verbatim>\<open>x/0\<close>, and nothing
  traps.
\<close>

datatype double = Finite real | NaN | PosInf | NegInf

definition divide_double :: "real \<Rightarrow> real \<Rightarrow> double" where
  "divide_double a b =
     (if b \<noteq> 0 then Finite (a / b)
      else if a = 0 then NaN
      else if 0 < a then PosInf else NegInf)"

text \<open>
  The loop of \<^verbatim>\<open>computeCorrelationDirect\<close> (lines 27-31), with its counter \<open>i\<close> and its
  three accumulators. The source declares \<open>i\<close> as \<^verbatim>\<open>int\<close> and compares it with a
  \<^verbatim>\<open>size_t\<close>; the model counts in \<^typ>\<open>nat\<close>, which is the same below \<open>2^31\<close> elements.
\<close>

function corr_loop ::
  "real list \<Rightarrow> real list \<Rightarrow> nat \<Rightarrow> nat \<Rightarrow> real \<times> real \<times> real \<Rightarrow> real \<times> real \<times> real" where
  "corr_loop left right len i (res, var1, var2) =
     (if i < len
      then corr_loop left right len (Suc i)
             (res + left ! i * right ! i,
              var1 + left ! i * left ! i,
              var2 + right ! i * right ! i)
      else (res, var1, var2))"
  by pat_completeness auto
termination
  by (relation "measure (\<lambda>(left, right, len, i, acc). len - i)") auto

declare corr_loop.simps [simp del]

text \<open>Lines 21-31: \<open>res\<close>, \<open>var1\<close> and \<open>var2\<close> when the loop is left.\<close>

definition correlation_sums :: "real list \<Rightarrow> real list \<Rightarrow> real \<times> real \<times> real" where
  "correlation_sums left right =
     (let len = (if length left < length right then length left else length right)
      in corr_loop left right len 0 (0, 0, 0))"

text \<open>Lines 33-35: \<^verbatim>\<open>denom = sqrt(var1*var2); return res/denom;\<close> with no test of \<open>denom\<close>.\<close>

definition computeCorrelationDirect :: "real list \<Rightarrow> real list \<Rightarrow> double" where
  "computeCorrelationDirect left right =
     (case correlation_sums left right of
        (res, var1, var2) \<Rightarrow> let denom = sqrt (var1 * var2) in divide_double res denom)"

definition computeCorrelation :: "real list \<Rightarrow> real list \<Rightarrow> double" where
  "computeCorrelation left right =
     (if length left = 0 \<and> length right = 0 then Finite 1
      else computeCorrelationDirect left right)"

section \<open>utMath/Stochastic: k-means\<close>

text \<open>
  \<^verbatim>\<open>k_means\<close> is a template over the vector type and its \<^verbatim>\<open>value_type\<close>. The operations
  it uses on them are the fields of a record, so that what is proved of the loop holds
  for whatever they compute (IEEE doubles with their NaN included):
  \<^verbatim>\<open>vector_out_type::zeros()\<close>, \<^verbatim>\<open>+=\<close> on vectors, \<^verbatim>\<open>/=\<close> of a vector by the result of
  \<^verbatim>\<open>std::count\<close>, and on values \<^verbatim>\<open>static_cast< value_type >( 0 )\<close>, the \<^verbatim>\<open>+\<close> of
  \<^verbatim>\<open>std::accumulate\<close>, the division by \<open>n_cluster\<close>, \<^verbatim>\<open><\<close>, and \<open>epsilon\<close> (line 291).
\<close>

record ('v, 'a) arithmetic =
  zeros :: "'v"
  plus_assign :: "'v \<Rightarrow> 'v \<Rightarrow> 'v"
  divide_assign :: "'v \<Rightarrow> nat \<Rightarrow> 'v"
  value_zero :: "'a"
  value_plus :: "'a \<Rightarrow> 'a \<Rightarrow> 'a"
  value_divide :: "'a \<Rightarrow> nat \<Rightarrow> 'a"
  value_less :: "'a \<Rightarrow> 'a \<Rightarrow> bool"
  epsilon :: "'a"

text \<open>
  The loop of \<^verbatim>\<open>assign_indices::operator()\<close> (lines 99-107) over the means after the
  first: \<open>k_now\<close> is the position of the mean looked at, \<open>k\<close> the nearest so far and \<open>d\<close>
  its distance.
\<close>

fun nearest ::
  "('v, 'a) arithmetic \<Rightarrow> ('v \<Rightarrow> 'v \<Rightarrow> 'a) \<Rightarrow> 'v \<Rightarrow> 'v list \<Rightarrow> nat \<Rightarrow> nat \<Rightarrow> 'a \<Rightarrow> nat" where
  "nearest A distanceFunc vec [] k_now k d = k"
| "nearest A distanceFunc vec (m # rest) k_now k d =
     (let d_new = distanceFunc vec m
      in if value_less A d_new d
         then nearest A distanceFunc vec rest (Suc k_now) k_now d_new
         else nearest A distanceFunc vec rest (Suc k_now) k d)"

text \<open>
  \<^verbatim>\<open>assign_indices::operator()\<close> (lines 86-109). Line 97 reads \<^verbatim>\<open>*iter++\<close> before any
  comparison with \<^verbatim>\<open>iEnd\<close>: on an empty range of means that is a read through the end
  iterator, and the loop that follows starts beyond \<^verbatim>\<open>iEnd\<close>.
\<close>

definition assign_indices ::
  "('v, 'a) arithmetic \<Rightarrow> ('v \<Rightarrow> 'v \<Rightarrow> 'a) \<Rightarrow> 'v list \<Rightarrow> 'v \<Rightarrow> error + nat" where
  "assign_indices A distanceFunc means vec =
     (case means of
        [] \<Rightarrow> Inl PastTheEnd
      | m # rest \<Rightarrow> Inr (nearest A distanceFunc vec rest 1 0 (distanceFunc vec m)))"

text \<open>\<^verbatim>\<open>std::transform\<close> of the input range with \<^verbatim>\<open>assign_indices\<close> (lines 304 and 333).\<close>

fun transform_assign ::
  "('v, 'a) arithmetic \<Rightarrow> ('v \<Rightarrow> 'v \<Rightarrow> 'a) \<Rightarrow> 'v list \<Rightarrow> 'v list \<Rightarrow> error + nat list" where
  "transform_assign A distanceFunc means [] = Inr []"
| "transform_assign A distanceFunc means (vec # vecs) =
     (case assign_indices A distanceFunc means vec of
        Inl e \<Rightarrow> Inl e
      | Inr k \<Rightarrow>
          (case transform_assign A distanceFunc means vecs of
             Inl e \<Rightarrow> Inl e
           | Inr ks \<Rightarrow> Inr (k # ks)))"

text \<open>
  \<^verbatim>\<open>k_means_accumulate\<close> with \<^verbatim>\<open>assign_to_mean\<close> (lines 114-138): every input vector is
  added to the mean its index names.
\<close>

fun k_means_accumulate ::
  "('v, 'a) arithmetic \<Rightarrow> 'v list \<Rightarrow> nat list \<Rightarrow> 'v list \<Rightarrow> 'v list" where
  "k_means_accumulate A (vec # vecs) (index # indices) means_temp =
     k_means_accumulate A vecs indices
       (means_temp[index := plus_assign A (means_temp ! index) vec])"
| "k_means_accumulate A vecs indices means_temp = means_temp"

definition max_iter :: nat where
  "max_iter = 100"

text \<open>
  What \<^verbatim>\<open>k_means\<close> leaves behind: the means (written through \<^verbatim>\<open>itMeanBegin\<close>), the indices
  (copied to \<^verbatim>\<open>indicesOut\<close>), the returned \<open>diff_error\<close> (declared without a value in line
  308, hence an option), the counter \<open>i\<close> after the loop, and \<open>body_runs\<close>, the number of
  times the loop body was entered, which is not a variable of the source.
\<close>

record ('v, 'a) k_means_result =
  means_out :: "'v list"
  indices_out :: "nat list"
  diff_error_out :: "'a option"
  i_out :: nat
  body_runs :: nat

text \<open>The loop of lines 309-337, from its head with the counter at \<open>i\<close>.\<close>

function k_means_loop ::
  "('v, 'a) arithmetic \<Rightarrow> ('v \<Rightarrow> 'v \<Rightarrow> 'a) \<Rightarrow> 'v list \<Rightarrow> nat \<Rightarrow> 'v list \<Rightarrow> nat list
     \<Rightarrow> 'a option \<Rightarrow> error + ('v, 'a) k_means_result" where
  "k_means_loop A distanceFunc vals i means indices diff_error =
     (if i < max_iter then
        (let n_cluster = length means;
             means_temp = replicate n_cluster (zeros A);
             means_temp = k_means_accumulate A vals indices means_temp;
             means_temp = map (\<lambda>k. divide_assign A (means_temp ! k) (count_list indices k))
                            [0..<n_cluster];
             norms1 = map2 distanceFunc means means_temp;
             diff = value_divide A (foldl (value_plus A) (value_zero A) norms1) n_cluster
         in case transform_assign A distanceFunc means_temp vals of
              Inl e \<Rightarrow> Inl e
            | Inr indices' \<Rightarrow>
                if value_less A diff (epsilon A)
                then Inr \<lparr>means_out = means_temp, indices_out = indices',
                          diff_error_out = Some diff, i_out = i, body_runs = Suc i\<rparr>
                else k_means_loop A distanceFunc vals (Suc i) means_temp indices' (Some diff))
      else Inr \<lparr>means_out = means, indices_out = indices, diff_error_out = diff_error,
                i_out = i, body_runs = i\<rparr>)"
  by pat_completeness auto
termination
  by (relation "measure (\<lambda>(A, distanceFunc, vals, i, means, indices, diff_error). max_iter - i)")
    auto

declare k_means_loop.simps [simp del]

text \<open>
  The internal \<^verbatim>\<open>k_means\<close> (lines 271-344): \<open>vals\<close> is the range \<^verbatim>\<open>[iBegin, iEnd)\<close>, \<open>means\<close>
  the range \<^verbatim>\<open>[itMeanBegin, itMeanEnd)\<close> of initial means.
\<close>

definition k_means ::
  "('v, 'a) arithmetic \<Rightarrow> ('v \<Rightarrow> 'v \<Rightarrow> 'a) \<Rightarrow> 'v list \<Rightarrow> 'v list
     \<Rightarrow> error + ('v, 'a) k_means_result" where
  "k_means A distanceFunc vals means =
     (let n = length vals; n_cluster = length means
      in if \<not> n > n_cluster then Inl AssertionFailed
         else case transform_assign A distanceFunc means vals of
                Inl e \<Rightarrow> Inl e
              | Inr indices \<Rightarrow> k_means_loop A distanceFunc vals 0 means indices None)"

text \<open>
  One arithmetic to run the model on: vectors of \<open>N\<close> reals. A division by a count of
  zero gives 0 here, where doubles give NaN; the runs below have no empty cluster.
  \<^verbatim>\<open>SquaredDistance\<close> (VectorFunctions.h, not among the sources) is the distance the public
  \<^verbatim>\<open>k_means\<close> passes in line 399: by its name, the squared Euclidean distance.
\<close>

definition real_vectors :: "nat \<Rightarrow> (real list, real) arithmetic" where
  "real_vectors N =
     \<lparr>zeros = replicate N 0,
      plus_assign = map2 (+),
      divide_assign = (\<lambda>v c. map (\<lambda>x. x / real c) v),
      value_zero = 0,
      value_plus = (+),
      value_divide = (\<lambda>a c. a / real c),
      value_less = (<),
      epsilon = (1 / 100) ^ 2\<rparr>"

definition SquaredDistance :: "real list \<Rightarrow> real list \<Rightarrow> real" where
  "SquaredDistance a b = sum_list (map2 (\<lambda>x y. (x - y) ^ 2) a b)"

section \<open>The square homography of utCalibration/Homography\<close>

type_synonym point2 = "real \<times> real"
type_synonym vector3h = "real \<times> real \<times> real"
type_synonym matrix33 = "vector3h \<times> vector3h \<times> vector3h"

definition identity :: matrix33 where
  "identity = ((1, 0, 0), (0, 1, 0), (0, 0, 1))"

text \<open>\<^verbatim>\<open>ublas::prod\<close> of a 3x3 matrix (given by its rows) and a 3-vector.\<close>

definition prod33 :: "matrix33 \<Rightarrow> vector3h \<Rightarrow> vector3h" where
  "prod33 M x =
     (case M of ((a, b, c), (d, e, f), (g, h, i)) \<Rightarrow>
      case x of (x0, x1, x2) \<Rightarrow>
        (a * x0 + b * x1 + c * x2, d * x0 + e * x1 + f * x2, g * x0 + h * x1 + i * x2))"

text \<open>
  The corners that \<^verbatim>\<open>TestSquareHomography\<close> builds (HomographyTest.cpp, lines 39-44):
  \<^verbatim>\<open>stdCorners[ i ][ 0 ] = ( i & 2 ) ? 0.5f : -0.5f;\<close> and
  \<^verbatim>\<open>stdCorners[ i ][ 1 ] = ( ( i + 1 ) & 2 ) ? -0.5f : 0.5f;\<close> for \<open>i\<close> from 0 to 3.
\<close>

definition stdCorners :: "point2 list" where
  "stdCorners =
     map (\<lambda>i::nat. (if i AND 2 \<noteq> 0 then 1 / 2 else - (1 / 2),
                     if (i + 1) AND 2 \<noteq> 0 then - (1 / 2) else 1 / 2))
       [0..<4]"

text \<open>
  The corners as section 8 of the spec lists them: "source points {(-0.5,-0.5),
  (0.5,-0.5), (0.5,0.5), (-0.5,0.5)}".
\<close>

definition canonical_square :: "point2 list" where
  "canonical_square =
     [(- (1 / 2), - (1 / 2)), (1 / 2, - (1 / 2)), (1 / 2, 1 / 2), (- (1 / 2), 1 / 2)]"

definition bottom_right :: "matrix33 \<Rightarrow> real" where
  "bottom_right M = (case M of ((a, b, c), (d, e, f), (g, h, i)) \<Rightarrow> i)"

definition zero33 :: matrix33 where
  "zero33 = ((0, 0, 0), (0, 0, 0), (0, 0, 0))"

text \<open>
  The two equations that the correspondence of a corner \<open>p\<close> of the square and a
  destination point \<open>q\<close> contributes to the linear system: \<open>H\<close> takes \<open>(p, 1)\<close> to a multiple
  of \<open>(q, 1)\<close>.
\<close>

definition system_rows :: "matrix33 \<Rightarrow> point2 \<Rightarrow> point2 \<Rightarrow> bool" where
  "system_rows H p q =
     (case prod33 H (fst p, snd p, 1) of (u, v, w) \<Rightarrow> u = fst q * w \<and> v = snd q * w)"

text \<open>
  The scale (4.1): "normalized so its bottom-right entry (or an equivalent convention) is
  1". Where the bottom-right entry is 0 the spec does not give the convention; any matrix
  other than the zero matrix is admitted there.
\<close>

definition normalized :: "matrix33 \<Rightarrow> bool" where
  "normalized H = (bottom_right H = 1 \<or> (bottom_right H = 0 \<and> H \<noteq> zero33))"

definition collinear :: "point2 \<Rightarrow> point2 \<Rightarrow> point2 \<Rightarrow> bool" where
  "collinear p q r =
     ((fst q - fst p) * (snd r - snd p) - (fst r - fst p) * (snd q - snd p) = 0)"

text \<open>
  The spec's condition of failure (4.1): "the 4 destination points are collinear or any
  three are coincident".
\<close>

fun degenerate :: "point2 list \<Rightarrow> bool" where
  "degenerate [d0, d1, d2, d3] =
     ((collinear d0 d1 d2 \<and> collinear d0 d1 d3 \<and> collinear d0 d2 d3 \<and> collinear d1 d2 d3)
      \<or> (d0 = d1 \<and> d1 = d2) \<or> (d0 = d1 \<and> d1 = d3) \<or> (d0 = d2 \<and> d2 = d3)
      \<or> (d1 = d2 \<and> d2 = d3))"
| "degenerate ds = False"

text \<open>
  Modelled from the spec: \<^verbatim>\<open>squareHomography\<close> (utCalibration/Homography) is not among
  the sources; only its test is. The spec (4.1) gives it by its contract: "given exactly 4
  destination points (the source is implicitly the canonical unit square centered at the
  origin, corners at (+-0.5, +-0.5) in a fixed winding order), compute the unique
  homography mapping the square to those 4 points", the unknowns "obtained by solving a
  fixed-structure 8x8 linear system", the matrix "normalized so its bottom-right entry
  ... is 1", and it "fails with DegenerateConfiguration if the 4 destination points are
  collinear or any three are coincident". The model is this contract:
  \<open>squareHomography_returns canon corners r\<close> holds when \<open>r\<close> is an outcome that the
  contract allows for the four points \<open>corners\<close>, \<open>canon\<close> being the corners of the square
  in the fixed winding order. Section 4.1 does not say which order this is: section 8
  lists the corners as \<open>canonical_square\<close> has them, and the test builds \<open>stdCorners\<close>.
\<close>

definition squareHomography_returns ::
  "point2 list \<Rightarrow> point2 list \<Rightarrow> error + matrix33 \<Rightarrow> bool" where
  "squareHomography_returns canon corners r =
     (length canon = 4 \<and> length corners = 4 \<and>
      (case r of
         Inl e \<Rightarrow> e = DegenerateConfiguration \<and> degenerate corners
       | Inr H \<Rightarrow> \<not> degenerate corners \<and> list_all2 (system_rows H) canon corners
                   \<and> normalized H))"

text \<open>
  The comparison of the test, \<^verbatim>\<open>BOOST_CHECK_SMALL( homMatrixDiff( H, G ), epsilon )\<close>
  (\<^verbatim>\<open>homMatrixDiff\<close> of tools.h is not among the sources): with both matrices scaled to a
  bottom-right entry of 1, every entry of \<open>H\<close> is nearer than \<open>eps\<close> to that of \<open>G\<close>.
\<close>

definition entries :: "matrix33 \<Rightarrow> real list" where
  "entries M = (case M of ((a, b, c), (d, e, f), (g, h, i)) \<Rightarrow> [a, b, c, d, e, f, g, h, i])"

definition within_tolerance :: "real \<Rightarrow> matrix33 \<Rightarrow> matrix33 \<Rightarrow> bool" where
  "within_tolerance eps H G = list_all (\<lambda>(x, y). \<bar>x - y\<bar> < eps) (zip (entries H) (entries G))"

section \<open>Properties of the pose\<close>

text \<open>
  C8. For every pose \<open>p\<close> and every scaling factor \<open>s\<close>, \<open>scalePose s\<close> multiplies each of
  the three translation components by \<open>s\<close> and leaves the rotation quaternion as it was.
\<close>

theorem scalePose_scales_translation_only:
  "v0 (m_translation (scalePose s p)) = v0 (m_translation p) * s
   \<and> v1 (m_translation (scalePose s p)) = v1 (m_translation p) * s
   \<and> v2 (m_translation (scalePose s p)) = v2 (m_translation p) * s
   \<and> m_rotation (scalePose s p) = m_rotation p"
  by (simp add: scalePose_def)

text \<open>
  C7. For every pose \<open>p\<close>, \<open>toVector\<close> writes the translation x, y, z into components
  0-2 and the quaternion x, y, z, w into components 3-6 of the vector and leaves the
  components from 7 on alone, and \<open>fromVector\<close> of that vector is \<open>p\<close> again. The vector
  has to hold seven components, and its value type has to hold a double without loss
  (\<open>dbl (cst x) = x\<close>, as for a vector of doubles, where both are the identity).
\<close>

theorem toVector_fromVector_round_trip:
  assumes len: "7 \<le> length v" and cast: "\<And>x. dbl (cst x) = x"
  shows "\<exists>v'. toVector cst p v = Inr v' \<and> length v' = length v
     \<and> v' ! 0 = cst (v0 (m_translation p)) \<and> v' ! 1 = cst (v1 (m_translation p))
     \<and> v' ! 2 = cst (v2 (m_translation p))
     \<and> v' ! 3 = cst (qx (m_rotation p)) \<and> v' ! 4 = cst (qy (m_rotation p))
     \<and> v' ! 5 = cst (qz (m_rotation p)) \<and> v' ! 6 = cst (qw (m_rotation p))
     \<and> drop 7 v' = drop 7 v
     \<and> fromVector dbl v' = Inr p"
proof -
  from len obtain a b c d e f g r where v: "v = a # b # c # d # e # f # g # r"
    by (auto simp add: numeral_eq_Suc Suc_le_length_iff)
  show ?thesis
    unfolding v using cast
    by (cases p, simp add: toVector_def fromVector_def range_ok_def quaternion_toVector_def
        quaternion_fromVector_def vector_cast_assign_def Let_def numeral_eq_Suc)
qed

theorem toVector_fromVector_round_trip_witness:
  "7 \<le> length [9, 9, 9, 9, 9, 9, 9, 9 :: real]
   \<and> (\<forall>x :: real. (\<lambda>y. y) ((\<lambda>y. y) x) = x)
   \<and> toVector (\<lambda>y. y)
        \<lparr>m_rotation = \<lparr>qx = 0, qy = 0, qz = 0, qw = 1\<rparr>,
         m_translation = \<lparr>v0 = 1, v1 = 2, v2 = 3\<rparr>\<rparr>
        [9, 9, 9, 9, 9, 9, 9, 9]
      = Inr [1, 2, 3, 0, 0, 0, 1, 9]
   \<and> fromVector (\<lambda>y. y) [1, 2, 3, 0, 0, 0, 1, 9 :: real]
      = Inr \<lparr>m_rotation = \<lparr>qx = 0, qy = 0, qz = 0, qw = 1\<rparr>,
             m_translation = \<lparr>v0 = 1, v1 = 2, v2 = 3\<rparr>\<rparr>"
proof -
  have v: "toVector (\<lambda>y. y)
        \<lparr>m_rotation = \<lparr>qx = 0, qy = 0, qz = 0, qw = 1\<rparr>,
         m_translation = \<lparr>v0 = 1, v1 = 2, v2 = 3\<rparr>\<rparr>
        [9, 9, 9, 9, 9, 9, 9, 9 :: real]
      = Inr [1, 2, 3, 0, 0, 0, 1, 9]"
    by (simp add: toVector_def range_ok_def quaternion_toVector_def vector_cast_assign_def
        Let_def numeral_eq_Suc)
  show ?thesis
    using toVector_fromVector_round_trip
      [of "[9, 9, 9, 9, 9, 9, 9, 9 :: real]" "\<lambda>y. y" "\<lambda>y. y"
        "\<lparr>m_rotation = \<lparr>qx = 0, qy = 0, qz = 0, qw = 1\<rparr>,
          m_translation = \<lparr>v0 = 1, v1 = 2, v2 = 3\<rparr>\<rparr>"]
    by (simp add: v)
qed

text \<open>
  \<open>scalePose\<close> is a public operation, and it changes the receiver: after
  \<open>scalePose 2\<close> the translation (1, 2, 3) of the receiver is (2, 4, 6).
\<close>

theorem scalePose_mutates_receiver:
  "scalePose 2
     \<lparr>m_rotation = \<lparr>qx = 0, qy = 0, qz = 0, qw = 1\<rparr>,
      m_translation = \<lparr>v0 = 1, v1 = 2, v2 = 3\<rparr>\<rparr>
   = \<lparr>m_rotation = \<lparr>qx = 0, qy = 0, qz = 0, qw = 1\<rparr>,
      m_translation = \<lparr>v0 = 2, v1 = 4, v2 = 6\<rparr>\<rparr>
   \<and> scalePose 2
     \<lparr>m_rotation = \<lparr>qx = 0, qy = 0, qz = 0, qw = 1\<rparr>,
      m_translation = \<lparr>v0 = 1, v1 = 2, v2 = 3\<rparr>\<rparr>
   \<noteq> \<lparr>m_rotation = \<lparr>qx = 0, qy = 0, qz = 0, qw = 1\<rparr>,
      m_translation = \<lparr>v0 = 1, v1 = 2, v2 = 3\<rparr>\<rparr>"
  by (simp add: scalePose_def)

text \<open>
  C6, amended. The \<open>const\<close> public operations of a pose leave the receiver's rotation
  quaternion and translation vector (and every other pose) unchanged: the
  multiplication, the inversion and the transformation of a vector return their result by
  value, the conversion \<open>toVector\<close> gives its result in the vector handed to it, and the
  accessors \<open>rotation()\<close> and \<open>translation()\<close> return references to the receiver's own
  members, through which the current contents are read. The public operations that are
  not \<open>const\<close> change the receiver in place: \<open>scalePose\<close> multiplies each of the three
  translation components by the factor and leaves the rotation as it was, so that the
  reference got from \<open>translation()\<close> reads the scaled translation afterwards; and the
  copy assignment overwrites both members with those of its argument.
\<close>

theorem pose_operations_effects:
  "fst (call B Rotation this st) = st
   \<and> fst (call B Translation this st) = st
   \<and> fst (call B (ToVector cst v) this st) = st
   \<and> fst (call B (TransformVector x) this st) = st
   \<and> fst (call B (Multiply Q) this st) = st
   \<and> fst (call B Invert this st) = st
   \<and> snd (call B (TransformVector x) this st) = Vector3Value (transform_vector B (st this) x)
   \<and> snd (call B (Multiply Q) this st) = PoseValue (multiply B (st this) (st Q))
   \<and> snd (call B Invert this st) = PoseValue (invert B (st this))
   \<and> snd (call B (ToVector cst v) this st) = VectorOut (toVector cst (st this) v)
   \<and> snd (call B Rotation this st) = ConstRef (Member this M_rotation)
   \<and> snd (call B Translation this st) = ConstRef (Member this M_translation)
   \<and> deref st (Member this M_rotation) = AQuaternion (m_rotation (st this))
   \<and> deref st (Member this M_translation) = AVector3 (m_translation (st this))
   \<and> fst (call B (ScalePose s) this st)
       = st(this := \<lparr>m_rotation = m_rotation (st this),
                      m_translation = \<lparr>v0 = v0 (m_translation (st this)) * s,
                                       v1 = v1 (m_translation (st this)) * s,
                                       v2 = v2 (m_translation (st this)) * s\<rparr>\<rparr>)
   \<and> deref (fst (call B (ScalePose s) this st)) (Member this M_translation)
       = AVector3 \<lparr>v0 = v0 (m_translation (st this)) * s,
                   v1 = v1 (m_translation (st this)) * s,
                   v2 = v2 (m_translation (st this)) * s\<rparr>
   \<and> deref (fst (call B (ScalePose s) this st)) (Member this M_rotation)
       = AQuaternion (m_rotation (st this))
   \<and> fst (call B (Assign other) this st) = st(this := st other)"
proof -
  have scaled: "scalePose s (st this)
      = \<lparr>m_rotation = m_rotation (st this),
         m_translation = \<lparr>v0 = v0 (m_translation (st this)) * s,
                          v1 = v1 (m_translation (st this)) * s,
                          v2 = v2 (m_translation (st this)) * s\<rparr>\<rparr>"
    by (cases "st this") (simp add: scalePose_def)
  have assigned: "assign (st other) (st this) = st other"
    by (cases "st this", cases "st other") (simp add: assign_def)
  show ?thesis
    by (simp add: scaled assigned rotation_def translation_def)
qed

section \<open>Properties of the correlation\<close>

lemma corr_loop_sums:
  "corr_loop left right len i (res, var1, var2) =
     (res + (\<Sum>k = i..<len. left ! k * right ! k),
      var1 + (\<Sum>k = i..<len. left ! k * left ! k),
      var2 + (\<Sum>k = i..<len. right ! k * right ! k))"
proof (induction left right len i "(res, var1, var2)" arbitrary: res var1 var2
    rule: corr_loop.induct)
  case (1 left right len i res var1 var2)
  show ?case
  proof (cases "i < len")
    case True
    with "1" show ?thesis
      by (subst corr_loop.simps) (simp add: sum.atLeast_Suc_lessThan add.assoc)
  next
    case False
    then show ?thesis by (subst corr_loop.simps) simp
  qed
qed

lemma zero_prefix_nth:
  "list_all (\<lambda>x. x = 0) (take n xs) \<Longrightarrow> n \<le> length xs \<Longrightarrow> k < n \<Longrightarrow> xs ! k = (0::real)"
  by (auto simp add: list_all_length)

lemma correlation_sums_left_zero:
  assumes "list_all (\<lambda>x. x = 0) (take (min (length left) (length right)) left)"
  shows "\<exists>var2. correlation_sums left right = (0, 0, var2)"
proof -
  let ?len = "min (length left) (length right)"
  have z: "\<And>k. k < ?len \<Longrightarrow> left ! k = 0"
    using assms zero_prefix_nth [of ?len left] by simp
  have len: "(if length left < length right then length left else length right) = ?len"
    by (simp add: min_def)
  show ?thesis
    unfolding correlation_sums_def len Let_def corr_loop_sums using z by simp
qed

lemma correlation_sums_right_zero:
  assumes "list_all (\<lambda>x. x = 0) (take (min (length left) (length right)) right)"
  shows "\<exists>var1. correlation_sums left right = (0, var1, 0)"
proof -
  let ?len = "min (length left) (length right)"
  have z: "\<And>k. k < ?len \<Longrightarrow> right ! k = 0"
    using assms zero_prefix_nth [of ?len right] by simp
  have len: "(if length left < length right then length left else length right) = ?len"
    by (simp add: min_def)
  show ?thesis
    unfolding correlation_sums_def len Let_def corr_loop_sums using z by simp
qed

text \<open>
  C9. \<open>computeCorrelation\<close> returns exactly 1 when both vectors are empty. For every
  other input in which the entries of the left or of the right vector are all zero over
  the common prefix (so also whenever exactly one vector is empty, the common prefix
  then being empty), \<open>computeCorrelationDirect\<close> is reached, the denominator
  \<open>sqrt (var1 * var2)\<close> is 0, and the unguarded division \<open>res / denom\<close> is \<open>0 / 0\<close>: the
  result is not a number.
\<close>

theorem computeCorrelation_zero_denominator:
  "computeCorrelation [] [] = Finite 1
   \<and> (\<not> (left = [] \<and> right = [])
        \<and> (list_all (\<lambda>x. x = 0) (take (min (length left) (length right)) left)
           \<or> list_all (\<lambda>x. x = 0) (take (min (length left) (length right)) right))
      \<longrightarrow> (\<exists>res var1 var2. correlation_sums left right = (res, var1, var2)
              \<and> sqrt (var1 * var2) = 0)
          \<and> computeCorrelation left right = computeCorrelationDirect left right
          \<and> computeCorrelation left right = NaN)"
proof (intro conjI impI)
  show "computeCorrelation [] [] = Finite 1"
    by (simp add: computeCorrelation_def)
next
  assume h: "\<not> (left = [] \<and> right = [])
        \<and> (list_all (\<lambda>x. x = 0) (take (min (length left) (length right)) left)
           \<or> list_all (\<lambda>x. x = 0) (take (min (length left) (length right)) right))"
  then consider (l) var2 where "correlation_sums left right = (0, 0, var2)"
    | (r) var1 where "correlation_sums left right = (0, var1, 0)"
    using correlation_sums_left_zero correlation_sums_right_zero by blast
  then show "\<exists>res var1 var2. correlation_sums left right = (res, var1, var2)
      \<and> sqrt (var1 * var2) = 0"
    by cases auto
next
  assume h: "\<not> (left = [] \<and> right = [])
        \<and> (list_all (\<lambda>x. x = 0) (take (min (length left) (length right)) left)
           \<or> list_all (\<lambda>x. x = 0) (take (min (length left) (length right)) right))"
  then show "computeCorrelation left right = computeCorrelationDirect left right"
    by (auto simp add: computeCorrelation_def)
next
  assume h: "\<not> (left = [] \<and> right = [])
        \<and> (list_all (\<lambda>x. x = 0) (take (min (length left) (length right)) left)
           \<or> list_all (\<lambda>x. x = 0) (take (min (length left) (length right)) right))"
  then consider (l) var2 where "correlation_sums left right = (0, 0, var2)"
    | (r) var1 where "correlation_sums left right = (0, var1, 0)"
    using correlation_sums_left_zero correlation_sums_right_zero by blast
  then show "computeCorrelation left right = NaN"
    using h
    by cases
      (auto simp add: computeCorrelation_def computeCorrelationDirect_def divide_double_def)
qed

theorem computeCorrelation_zero_denominator_witness:
  "computeCorrelation [] [] = Finite 1
   \<and> computeCorrelation [] [3] = NaN
   \<and> computeCorrelation [0, 0, 7] [3, 4] = NaN
   \<and> computeCorrelation [3, 4] [0, 0] = NaN"
proof -
  have one_empty: "\<not> ([] = [] \<and> [3 :: real] = [])
      \<and> (list_all (\<lambda>x. x = 0) (take (min (length []) (length [3 :: real])) [])
         \<or> list_all (\<lambda>x. x = 0) (take (min (length []) (length [3 :: real])) [3 :: real]))"
    by simp
  have left_zero: "\<not> ([0, 0, 7 :: real] = [] \<and> [3, 4 :: real] = [])
      \<and> (list_all (\<lambda>x. x = 0)
            (take (min (length [0, 0, 7 :: real]) (length [3, 4 :: real])) [0, 0, 7 :: real])
         \<or> list_all (\<lambda>x. x = 0)
            (take (min (length [0, 0, 7 :: real]) (length [3, 4 :: real])) [3, 4 :: real]))"
    by simp
  have right_zero: "\<not> ([3, 4 :: real] = [] \<and> [0, 0 :: real] = [])
      \<and> (list_all (\<lambda>x. x = 0)
            (take (min (length [3, 4 :: real]) (length [0, 0 :: real])) [3, 4 :: real])
         \<or> list_all (\<lambda>x. x = 0)
            (take (min (length [3, 4 :: real]) (length [0, 0 :: real])) [0, 0 :: real]))"
    by simp
  from computeCorrelation_zero_denominator [of "[]" "[3]"] one_empty
  have a: "computeCorrelation [] [] = Finite 1" and b: "computeCorrelation [] [3] = NaN"
    by blast+
  from computeCorrelation_zero_denominator [of "[0, 0, 7]" "[3, 4]"] left_zero
  have c: "computeCorrelation [0, 0, 7] [3, 4] = NaN"
    by blast
  from computeCorrelation_zero_denominator [of "[3, 4]" "[0, 0]"] right_zero
  have d: "computeCorrelation [3, 4] [0, 0] = NaN"
    by blast
  from a b c d show ?thesis by blast
qed

section \<open>Properties of k-means\<close>

lemma transform_assign_ok:
  "means \<noteq> [] \<Longrightarrow>
   \<exists>ks. transform_assign A distanceFunc means vals = Inr ks \<and> length ks = length vals"
  by (induction vals) (auto simp add: assign_indices_def split: list.splits)

text \<open>An index that \<open>assign_indices\<close> returns names one of the means.\<close>

lemma nearest_bound:
  "k < k_now \<Longrightarrow> nearest A distanceFunc vec rest k_now k d < k_now + length rest"
proof (induction rest arbitrary: k_now k d)
  case Nil
  then show ?case by simp
next
  case (Cons m rest)
  from Cons.IH [of k_now "Suc k_now" "distanceFunc vec m"] Cons.IH [of k "Suc k_now" d]
    Cons.prems
  show ?case by (auto simp add: Let_def)
qed

lemma assign_indices_bound:
  "assign_indices A distanceFunc means vec = Inr k \<Longrightarrow> k < length means"
  using nearest_bound [of 0 1 A distanceFunc vec "tl means" "distanceFunc vec (hd means)"]
  by (auto simp add: assign_indices_def split: list.splits)

text \<open>
  The loop, entered with the counter at \<open>i\<close> and at least one mean: it returns, its body
  has run at most \<open>max_iter\<close> times by then, and fewer times only after a \<open>diff_error\<close>
  below \<open>epsilon\<close>.
\<close>

lemma k_means_loop_returns:
  "means \<noteq> [] \<Longrightarrow> length indices = length vals \<Longrightarrow> i \<le> max_iter \<Longrightarrow>
   \<exists>r. k_means_loop A distanceFunc vals i means indices diff_error = Inr r
       \<and> body_runs r \<le> max_iter \<and> i \<le> body_runs r
       \<and> length (means_out r) = length means
       \<and> length (indices_out r) = length vals
       \<and> (body_runs r < max_iter \<longrightarrow>
            (\<exists>d. diff_error_out r = Some d \<and> value_less A d (epsilon A)))
       \<and> (i < max_iter \<longrightarrow> diff_error_out r \<noteq> None)"
proof (induction A distanceFunc vals i means indices diff_error rule: k_means_loop.induct)
  case (1 A distanceFunc vals i means indices diff_error)
  show ?case
  proof (cases "i < max_iter")
    case False
    with "1.prems" have "i = max_iter" by simp
    with "1.prems" show ?thesis
      by (subst k_means_loop.simps) (auto simp add: max_iter_def)
  next
    case True
    let ?mt0 = "k_means_accumulate A vals indices (replicate (length means) (zeros A))"
    let ?mt = "map (\<lambda>k. divide_assign A (?mt0 ! k) (count_list indices k)) [0..<length means]"
    let ?diff = "value_divide A
        (foldl (value_plus A) (value_zero A) (map2 distanceFunc means ?mt)) (length means)"
    have mt_len: "length ?mt = length means" by simp
    with "1.prems" have mt_ne: "?mt \<noteq> []" by auto
    from transform_assign_ok [OF mt_ne] obtain ks where
      ks: "transform_assign A distanceFunc ?mt vals = Inr ks"
      and ks_len: "length ks = length vals"
      by blast
    have unfold: "k_means_loop A distanceFunc vals i means indices diff_error =
        (if value_less A ?diff (epsilon A)
         then Inr \<lparr>means_out = ?mt, indices_out = ks, diff_error_out = Some ?diff,
                   i_out = i, body_runs = Suc i\<rparr>
         else k_means_loop A distanceFunc vals (Suc i) ?mt ks (Some ?diff))"
      using True ks by (subst k_means_loop.simps) (simp add: Let_def)
    show ?thesis
    proof (cases "value_less A ?diff (epsilon A)")
      case True
      with unfold \<open>i < max_iter\<close> ks_len show ?thesis by simp
    next
      case False
      have "\<exists>r. k_means_loop A distanceFunc vals (Suc i) ?mt ks (Some ?diff) = Inr r
          \<and> body_runs r \<le> max_iter \<and> Suc i \<le> body_runs r
          \<and> length (means_out r) = length ?mt
          \<and> length (indices_out r) = length vals
          \<and> (body_runs r < max_iter \<longrightarrow>
               (\<exists>d. diff_error_out r = Some d \<and> value_less A d (epsilon A)))
          \<and> (Suc i < max_iter \<longrightarrow> diff_error_out r \<noteq> None)"
        using \<open>i < max_iter\<close> ks_len mt_ne
        by (intro "1.IH" [OF \<open>i < max_iter\<close> refl refl refl refl refl refl ks False]) auto
      then obtain r where r: "k_means_loop A distanceFunc vals (Suc i) ?mt ks (Some ?diff) = Inr r"
          "body_runs r \<le> max_iter" "Suc i \<le> body_runs r"
          "length (means_out r) = length ?mt"
          "length (indices_out r) = length vals"
          "body_runs r < max_iter \<longrightarrow>
             (\<exists>d. diff_error_out r = Some d \<and> value_less A d (epsilon A))"
          "Suc i < max_iter \<longrightarrow> diff_error_out r \<noteq> None"
        by blast
      have "diff_error_out r \<noteq> None"
      proof (cases "Suc i < max_iter")
        case True
        with r show ?thesis by simp
      next
        case False
        with \<open>i < max_iter\<close> have "Suc i = max_iter" by simp
        then have "k_means_loop A distanceFunc vals (Suc i) ?mt ks (Some ?diff)
            = Inr \<lparr>means_out = ?mt, indices_out = ks, diff_error_out = Some ?diff,
                   i_out = Suc i, body_runs = Suc i\<rparr>"
          by (subst k_means_loop.simps) simp
        with r(1) show ?thesis by auto
      qed
      with r unfold \<open>\<not> value_less A ?diff (epsilon A)\<close> show ?thesis by auto
    qed
  qed
qed

text \<open>Two runs of the model: one that stops in its second pass, one that uses all 100.\<close>

lemma k_means_stops_early:
  "k_means (real_vectors 1) SquaredDistance [[0], [1], [10], [11]] [[0], [10]]
   = Inr \<lparr>means_out = [[1 / 2], [21 / 2]], indices_out = [0, 0, 1, 1],
          diff_error_out = Some 0, i_out = 1, body_runs = 2\<rparr>"
  by code_simp

lemma k_means_uses_max_iter:
  "k_means (real_vectors 1) (\<lambda>a b. 1) [[0], [1]] [[5]]
   = Inr \<lparr>means_out = [[1 / 2]], indices_out = [0, 0],
          diff_error_out = Some 1, i_out = 100, body_runs = 100\<rparr>"
  by code_simp

text \<open>
  With one input vector and no mean, the precondition \<open>n > n_cluster\<close> of line 298 holds,
  and the first \<open>assign_indices\<close> (line 304) reads through the end iterator of the empty
  range of means: \<open>k_means\<close> gives no result.
\<close>

theorem k_means_without_means:
  "length ([] :: real list list) < length [[0 :: real]]
   \<and> k_means (real_vectors 1) SquaredDistance [[0]] [] = Inl PastTheEnd"
  by (simp add: k_means_def assign_indices_def)

text \<open>
  C10, amended. For every input range of \<open>n\<close> elements and every set of \<open>n_cluster\<close>
  initial means with \<open>n > n_cluster\<close> and \<open>n_cluster \<ge> 1\<close>, whatever the distance
  function and the arithmetic of the vectors, \<open>k_means\<close> returns a result; the body of its
  refinement loop has then run at most \<open>max_iter = 100\<close> times, and fewer times only when
  the returned mean summarized difference is below \<open>epsilon\<close>.
\<close>

theorem k_means_terminates:
  assumes "1 \<le> length means" and "length means < length vals"
  shows "\<exists>r d. k_means A distanceFunc vals means = Inr r
       \<and> body_runs r \<le> max_iter \<and> max_iter = 100
       \<and> diff_error_out r = Some d
       \<and> (body_runs r < max_iter \<longrightarrow> value_less A d (epsilon A))
       \<and> length (means_out r) = length means
       \<and> length (indices_out r) = length vals"
proof -
  from assms have ne: "means \<noteq> []" by auto
  from transform_assign_ok [OF ne] obtain ks where
    ks: "transform_assign A distanceFunc means vals = Inr ks"
    and ks_len: "length ks = length vals"
    by blast
  from k_means_loop_returns [OF ne ks_len, of 0 A distanceFunc None]
  obtain r where r: "k_means_loop A distanceFunc vals 0 means ks None = Inr r"
      "body_runs r \<le> max_iter"
      "length (means_out r) = length means"
      "length (indices_out r) = length vals"
      "body_runs r < max_iter \<longrightarrow>
         (\<exists>d. diff_error_out r = Some d \<and> value_less A d (epsilon A))"
      "diff_error_out r \<noteq> None"
    by (auto simp add: max_iter_def)
  from r(6) obtain d where d: "diff_error_out r = Some d" by auto
  from assms ks r d have "k_means A distanceFunc vals means = Inr r
       \<and> body_runs r \<le> max_iter \<and> max_iter = 100
       \<and> diff_error_out r = Some d
       \<and> (body_runs r < max_iter \<longrightarrow> value_less A d (epsilon A))
       \<and> length (means_out r) = length means
       \<and> length (indices_out r) = length vals"
    by (simp add: k_means_def max_iter_def)
  then show ?thesis by blast
qed

theorem k_means_terminates_witness:
  "1 \<le> length [[0], [10 :: real]]
   \<and> length [[0], [10 :: real]] < length [[0], [1], [10], [11 :: real]]
   \<and> (\<exists>r d. k_means (real_vectors 1) SquaredDistance [[0], [1], [10], [11]] [[0], [10]] = Inr r
       \<and> body_runs r \<le> max_iter \<and> max_iter = 100
       \<and> diff_error_out r = Some d
       \<and> (body_runs r < max_iter \<longrightarrow> value_less (real_vectors 1) d (epsilon (real_vectors 1)))
       \<and> length (means_out r) = length [[0], [10 :: real]]
       \<and> length (indices_out r) = length [[0], [1], [10], [11 :: real]])"
proof -
  have h1: "1 \<le> length [[0], [10 :: real]]" by simp
  have h2: "length [[0], [10 :: real]] < length [[0], [1], [10], [11 :: real]]" by simp
  from h1 h2 k_means_terminates [OF h1 h2, of "real_vectors 1" SquaredDistance]
  show ?thesis by blast
qed

section \<open>Properties of the square homography\<close>

lemma stdCorners_list:
  "stdCorners = [(- (1 / 2), 1 / 2), (- (1 / 2), - (1 / 2)), (1 / 2, - (1 / 2)), (1 / 2, 1 / 2)]"
  by code_simp

text \<open>
  A matrix that solves the eight equations for the corners of the square and the same
  corners as destination is a multiple of the identity, whichever of the two orders the
  corners come in.
\<close>

lemma fixes_canonical_square:
  assumes "list_all2 (system_rows ((a, b, c), (d, e, f), (g, k, i)))
      canonical_square canonical_square"
  shows "a = i \<and> b = 0 \<and> c = 0 \<and> d = 0 \<and> e = i \<and> f = 0 \<and> g = 0 \<and> k = 0"
  using assms unfolding canonical_square_def system_rows_def prod33_def
  by simp argo

lemma fixes_stdCorners:
  assumes "list_all2 (system_rows ((a, b, c), (d, e, f), (g, k, i))) stdCorners stdCorners"
  shows "a = i \<and> b = 0 \<and> c = 0 \<and> d = 0 \<and> e = i \<and> f = 0 \<and> g = 0 \<and> k = 0"
  using assms unfolding stdCorners_list system_rows_def prod33_def
  by simp argo

lemma fixes_canonical_square_iff:
  "list_all2 (system_rows H) canonical_square canonical_square \<and> normalized H
   \<longleftrightarrow> H = identity"
proof
  assume h: "list_all2 (system_rows H) canonical_square canonical_square \<and> normalized H"
  obtain a b c d e f g k i where H: "H = ((a, b, c), (d, e, f), (g, k, i))"
    by (metis prod_cases3)
  from h fixes_canonical_square [of a b c d e f g k i]
  have m: "a = i \<and> b = 0 \<and> c = 0 \<and> d = 0 \<and> e = i \<and> f = 0 \<and> g = 0 \<and> k = 0"
    by (simp add: H)
  from h have "i = 1 \<or> (i = 0 \<and> H \<noteq> zero33)"
    by (simp add: normalized_def bottom_right_def H)
  with m have "i = 1"
    by (auto simp add: H zero33_def)
  with m show "H = identity" by (simp add: H identity_def)
next
  assume "H = identity"
  then show "list_all2 (system_rows H) canonical_square canonical_square \<and> normalized H"
    by (simp add: identity_def canonical_square_def system_rows_def prod33_def
        bottom_right_def normalized_def)
qed

lemma fixes_stdCorners_iff:
  "list_all2 (system_rows H) stdCorners stdCorners \<and> normalized H \<longleftrightarrow> H = identity"
proof
  assume h: "list_all2 (system_rows H) stdCorners stdCorners \<and> normalized H"
  obtain a b c d e f g k i where H: "H = ((a, b, c), (d, e, f), (g, k, i))"
    by (metis prod_cases3)
  from h fixes_stdCorners [of a b c d e f g k i]
  have m: "a = i \<and> b = 0 \<and> c = 0 \<and> d = 0 \<and> e = i \<and> f = 0 \<and> g = 0 \<and> k = 0"
    by (simp add: H)
  from h have "i = 1 \<or> (i = 0 \<and> H \<noteq> zero33)"
    by (simp add: normalized_def bottom_right_def H)
  with m have "i = 1"
    by (auto simp add: H zero33_def)
  with m show "H = identity" by (simp add: H identity_def)
next
  assume "H = identity"
  then show "list_all2 (system_rows H) stdCorners stdCorners \<and> normalized H"
    by (simp add: identity_def stdCorners_list system_rows_def prod33_def
        bottom_right_def normalized_def)
qed

lemma canonical_square_not_degenerate: "\<not> degenerate canonical_square"
  by (simp add: canonical_square_def collinear_def)

lemma stdCorners_not_degenerate: "\<not> degenerate stdCorners"
  by (simp add: stdCorners_list collinear_def)

text \<open>
  C5. \<open>squareHomography\<close> applied to the canonical unit square's own four corners
  (-0.5, -0.5), (0.5, -0.5), (0.5, 0.5), (-0.5, 0.5) returns the 3x3 identity matrix, with
  bottom-right entry 1: returning the identity is the one outcome its contract allows
  there, in exact arithmetic, and so within the tolerance 1e-6. The same holds when the
  square's corners are taken, as source and as destination, in the order of the test.
\<close>

theorem squareHomography_identity:
  "canonical_square
     = [(- (1 / 2), - (1 / 2)), (1 / 2, - (1 / 2)), (1 / 2, 1 / 2), (- (1 / 2), 1 / 2)]
   \<and> (squareHomography_returns canonical_square canonical_square r \<longleftrightarrow> r = Inr identity)
   \<and> (squareHomography_returns stdCorners stdCorners r \<longleftrightarrow> r = Inr identity)
   \<and> within_tolerance (1 / 1000000) identity identity"
proof (intro conjI)
  show "canonical_square
     = [(- (1 / 2), - (1 / 2)), (1 / 2, - (1 / 2)), (1 / 2, 1 / 2), (- (1 / 2), 1 / 2)]"
    by (simp add: canonical_square_def)
  show "squareHomography_returns canonical_square canonical_square r \<longleftrightarrow> r = Inr identity"
  proof (cases r)
    case (Inl e)
    then show ?thesis
      by (simp add: squareHomography_returns_def canonical_square_not_degenerate)
  next
    case (Inr H)
    have "length canonical_square = 4" by (simp add: canonical_square_def)
    with Inr fixes_canonical_square_iff [of H] show ?thesis
      by (auto simp add: squareHomography_returns_def canonical_square_not_degenerate)
  qed
  show "squareHomography_returns stdCorners stdCorners r \<longleftrightarrow> r = Inr identity"
  proof (cases r)
    case (Inl e)
    then show ?thesis
      by (simp add: squareHomography_returns_def stdCorners_not_degenerate)
  next
    case (Inr H)
    have "length stdCorners = 4" by (simp add: stdCorners_list)
    with Inr fixes_stdCorners_iff [of H] show ?thesis
      by (auto simp add: squareHomography_returns_def stdCorners_not_degenerate)
  qed
  show "within_tolerance (1 / 1000000) identity identity"
    by (simp add: within_tolerance_def entries_def identity_def)
qed

end
